theory Spec2Isabelle
  imports Main "HOL-Library.Sublist"
begin

section \<open>Route protection middleware and database handle of authjs-v5-oauth-middleware\<close>

text \<open>
  The development embeds the two pieces of locally written logic of the repository:
  the callback of \<^verbatim>\<open>src/middleware.ts\<close>, which decides per request whether to
  redirect, and the top-level code of \<^verbatim>\<open>src/lib/db.ts\<close>, which checks the
  environment and creates the MongoDB client.
\<close>

subsection \<open>JavaScript values and truthiness\<close>

text \<open>
  The session object that the identity library puts into \<^verbatim>\<open>req.auth\<close>, reduced to
  the identifier of the user it stands for. The middleware never looks inside it.
\<close>

record session =
  userId :: nat

text \<open>
  The values \<^verbatim>\<open>req.auth\<close> and \<^verbatim>\<open>process.env.X\<close> can hold. The middleware
  only applies \<^verbatim>\<open>!!\<close> to \<^verbatim>\<open>req.auth\<close>, so what matters is which values are
  falsy: \<^verbatim>\<open>undefined\<close>, \<^verbatim>\<open>null\<close>, \<^verbatim>\<open>false\<close>, \<^verbatim>\<open>0\<close>,
  \<^verbatim>\<open>NaN\<close> and the empty string. Every object, a session among them, is truthy.
\<close>

datatype js_value =
    JUndefined
  | JNull
  | JBool bool
  | JNumber int
  | JNaN
  | JString string
  | JSession session

fun truthy :: "js_value \<Rightarrow> bool" where
  "truthy JUndefined = False"
| "truthy JNull = False"
| "truthy (JBool b) = b"
| "truthy (JNumber n) = (n \<noteq> 0)"
| "truthy JNaN = False"
| "truthy (JString s) = (s \<noteq> [])"
| "truthy (JSession s) = True"

subsection \<open>Strings and arrays\<close>

text \<open>
  \<^verbatim>\<open>s.startsWith(p)\<close>: the characters of \<open>p\<close> are compared with those of \<open>s\<close>
  from position 0. The path name of a URL is percent-encoded ASCII, so a character list
  represents it exactly.
\<close>

fun startsWith :: "string \<Rightarrow> string \<Rightarrow> bool" where
  "startsWith s [] = True"
| "startsWith [] (c # p) = False"
| "startsWith (x # s) (c # p) = (x = c \<and> startsWith s p)"

text \<open>
  \<^verbatim>\<open>xs.some(f)\<close>: the elements are tested from the left, and the first one that
  satisfies \<open>f\<close> ends the search.
\<close>

fun some :: "('a \<Rightarrow> bool) \<Rightarrow> 'a list \<Rightarrow> bool" where
  "some f [] = False"
| "some f (x # xs) = (if f x then True else some f xs)"

subsection \<open>Requests and responses\<close>

text \<open>
  A URL as far as the middleware looks at it: where it points (scheme, host and port) and
  its path name. \<^verbatim>\<open>new URL(path, base)\<close> with a \<open>path\<close> that begins with one slash
  keeps the origin of \<open>base\<close> and replaces the path name by \<open>path\<close>. The request
  object of the framework is built from a parsed absolute URL, so that \<^verbatim>\<open>req.url\<close>
  is always a valid base and the constructor cannot fail here.
\<close>

record URL =
  origin :: string
  pathname :: string

definition URL_new :: "string \<Rightarrow> URL \<Rightarrow> URL" where
  "URL_new path base = \<lparr>origin = origin base, pathname = path\<rparr>"

record request =
  auth :: js_value
  nextUrl :: URL
  url :: URL

text \<open>
  The callback either returns \<^verbatim>\<open>NextResponse.redirect(url)\<close> or runs to its end and
  returns \<^verbatim>\<open>undefined\<close>, in which case the request goes on to the page: the result
  is \<open>Some (redirect u)\<close> or \<open>None\<close>.
\<close>

datatype NextResponse = redirect URL

subsection \<open>src/middleware.ts\<close>

definition privateRoutes :: "string list" where
  "privateRoutes = [''/dashboard'', ''/deneme'']"

text \<open>
  The callback passed to \<^verbatim>\<open>auth\<close>, with the module constant
  \<^verbatim>\<open>privateRoutes\<close> it closes over as a parameter.
\<close>

definition middleware_with :: "string list \<Rightarrow> request \<Rightarrow> NextResponse option" where
  "middleware_with routes req =
     (let isLoggedIn = truthy (auth req);
          isLoginRoute = startsWith (pathname (nextUrl req)) ''/login''
      in if isLoggedIn \<and> isLoginRoute
         then Some (redirect (URL_new ''/dashboard'' (url req)))
         else if \<not> isLoggedIn \<and> some (\<lambda>route. startsWith (pathname (nextUrl req)) route) routes
         then Some (redirect (URL_new ''/login'' (url req)))
         else None)"

definition middleware :: "request \<Rightarrow> NextResponse option" where
  "middleware req = middleware_with privateRoutes req"

text \<open>
  The decision of the spec read off the callback's result: no response means the request
  is allowed; a redirect is named by the path it points to.
\<close>

datatype GateDecision = Allow | RedirectTo string

fun decision :: "NextResponse option \<Rightarrow> GateDecision" where
  "decision None = Allow"
| "decision (Some (redirect u)) = RedirectTo (pathname u)"

subsection \<open>src/lib/db.ts\<close>

text \<open>
  \<^verbatim>\<open>process.env\<close> maps variable names to strings; reading a variable that is not
  set gives \<^verbatim>\<open>undefined\<close>.
\<close>

type_synonym env = "string \<rightharpoonup> string"

definition process_env :: "env \<Rightarrow> string \<Rightarrow> js_value" where
  "process_env e k = (case e k of None \<Rightarrow> JUndefined | Some v \<Rightarrow> JString v)"

text \<open>
  What evaluating the module can throw: the \<^verbatim>\<open>Error\<close> of the guard at the top of
  the module, with its message, or whatever the constructor of the driver throws, with
  the driver's message (a \<^verbatim>\<open>MongoParseError\<close> for a string that is no connection
  string).
\<close>

datatype js_error = Error string | DriverError string

record serverApi =
  version :: string
  strict :: bool
  deprecationErrors :: bool

record options =
  serverApi :: serverApi
  dbName :: string

definition options :: options where
  "options = \<lparr>serverApi = \<lparr>version = ''1'', strict = True, deprecationErrors = True\<rparr>,
              dbName = ''MyDatabaseName''\<rparr>"

text \<open>
  A client object: \<open>client_id\<close> stands for the identity of the object (two clients are
  the same handle exactly when they are the same object), the other fields are what the
  constructor was called with.
\<close>

record MongoClient =
  client_id :: nat
  client_uri :: string
  client_options :: options

text \<open>
  What outlives one evaluation of the module within a process: the property
  \<^verbatim>\<open>_mongoClient\<close> of the \<^verbatim>\<open>global\<close> object (\<open>None\<close> while it is not set),
  and the client objects constructed so far, counted.
\<close>

record process_state =
  global_mongoClient :: "MongoClient option"
  clients_created :: nat

text \<open>
  \<^verbatim>\<open>new MongoClient(uri, options)\<close>. The constructor belongs to the driver, which is
  not part of the repository: it parses the connection string and the options, and throws
  when it rejects them; otherwise it makes a new object, and connects only later, on first
  use. Which arguments the driver rejects is the parameter \<open>check\<close>: \<open>check uri opts\<close>
  is \<open>Some m\<close> when the constructor throws with message \<open>m\<close>, and \<open>None\<close> when it
  returns a client. A constructor that throws makes no object.
\<close>

type_synonym driver_check = "string \<Rightarrow> options \<Rightarrow> string option"

definition MongoClient_new ::
  "driver_check \<Rightarrow> string \<Rightarrow> options \<Rightarrow> process_state \<Rightarrow> (js_error + MongoClient) \<times> process_state" where
  "MongoClient_new check uri opts p =
     (case check uri opts of
        Some m \<Rightarrow> (Inl (DriverError m), p)
      | None \<Rightarrow>
          (Inr \<lparr>client_id = clients_created p, client_uri = uri, client_options = opts\<rparr>,
           p\<lparr>clients_created := Suc (clients_created p)\<rparr>))"

definition missing_uri_message :: string where
  "missing_uri_message =
     ''Invalid/Missing environment variable: '' @ [CHR 0x22] @ ''MONGODB_URI'' @ [CHR 0x22]"

text \<open>
  One evaluation of the module: the result is the error thrown, or the client the module
  exports as its default, together with the state of the process afterwards. In
  development mode the constructor runs on the right of the assignment to
  \<^verbatim>\<open>globalWithMongo._mongoClient\<close>: when it throws, the property is not assigned and
  nothing is exported.
\<close>

definition db_module :: "driver_check \<Rightarrow> env \<Rightarrow> process_state \<Rightarrow> (js_error + MongoClient) \<times> process_state" where
  "db_module check e p =
     (if \<not> truthy (process_env e ''MONGODB_URI'')
      then (Inl (Error missing_uri_message), p)
      else
        let uri = (case e ''MONGODB_URI'' of Some v \<Rightarrow> v | None \<Rightarrow> [])
        in if e ''NODE_ENV'' = Some ''development''
           then (case global_mongoClient p of
                   None \<Rightarrow>
                     (case MongoClient_new check uri options p of
                        (Inl err, p') \<Rightarrow> (Inl err, p')
                      | (Inr c, p') \<Rightarrow> (Inr c, p'\<lparr>global_mongoClient := Some c\<rparr>))
                 | Some c \<Rightarrow> (Inr c, p))
           else MongoClient_new check uri options p)"


text \<open>
  An instance of the parameter for the worked examples below: only strings with the
  scheme of a MongoDB connection string are accepted. The examples use it at
  \<open>mongodb://localhost:27017\<close> and \<open>mongodb://db.example:27017\<close>, which the driver
  accepts, and at \<open>not-a-uri\<close>, which it rejects.
\<close>

definition scheme_check :: driver_check where
  "scheme_check uri opts =
     (if prefix ''mongodb://'' uri \<or> prefix ''mongodb+srv://'' uri
      then None else Some ''Invalid scheme'')"

section \<open>Properties of the middleware\<close>

subsection \<open>The library functions against their specification\<close>

lemma startsWith_prefix: "startsWith s p = prefix p s"
  by (induction s p rule: startsWith.induct) auto

lemma some_set: "some f xs = (\<exists>x \<in> set xs. f x)"
  by (induction xs) simp_all

lemma decision_middleware_with:
  "decision (middleware_with routes req) =
     (if truthy (auth req) \<and> prefix ''/login'' (pathname (nextUrl req))
      then RedirectTo ''/dashboard''
      else if \<not> truthy (auth req) \<and> (\<exists>r \<in> set routes. prefix r (pathname (nextUrl req)))
      then RedirectTo ''/login''
      else Allow)"
  by (simp add: middleware_with_def Let_def startsWith_prefix some_set URL_new_def)

subsection \<open>The order of the rules\<close>

text \<open>
  Claim C1. For every value of \<^verbatim>\<open>req.auth\<close> and every path the rules are tried in a
  fixed order and the first that matches decides: a logged-in request whose path starts
  with \<open>/login\<close> is redirected to \<open>/dashboard\<close>; otherwise a request that is not logged
  in and whose path starts with one of the private prefixes is redirected to \<open>/login\<close>;
  otherwise the request is allowed. This holds for any list of private prefixes, and in
  particular for the list \<open>/dashboard\<close>, \<open>/deneme\<close> of the code.
\<close>

theorem gate_precedence:
  "decision (middleware_with routes req) =
     (if truthy (auth req) \<and> prefix ''/login'' (pathname (nextUrl req))
      then RedirectTo ''/dashboard''
      else if \<not> truthy (auth req) \<and> (\<exists>r \<in> set routes. prefix r (pathname (nextUrl req)))
      then RedirectTo ''/login''
      else Allow)
   \<and> decision (middleware req) =
     (if truthy (auth req) \<and> prefix ''/login'' (pathname (nextUrl req))
      then RedirectTo ''/dashboard''
      else if \<not> truthy (auth req) \<and>
              (prefix ''/dashboard'' (pathname (nextUrl req)) \<or> prefix ''/deneme'' (pathname (nextUrl req)))
      then RedirectTo ''/login''
      else Allow)"
  unfolding middleware_def privateRoutes_def decision_middleware_with by simp

subsection \<open>No private routes\<close>

text \<open>
  Claim C2. (amended) With an empty list of private prefixes the decision is \<open>Allow\<close> for every
  request, except for a logged-in request whose path starts with \<open>/login\<close>, which is
  still redirected to \<open>/dashboard\<close>: the first rule does not consult the list.
\<close>

theorem empty_routes_allow:
  "decision (middleware_with [] req) =
     (if truthy (auth req) \<and> prefix ''/login'' (pathname (nextUrl req))
      then RedirectTo ''/dashboard'' else Allow)"
  by (simp add: decision_middleware_with)

text \<open>
  The claim as it was stated (every verdict and every path is allowed) fails for a
  logged-in user 42 asking for \<open>/login\<close>.
\<close>

theorem empty_routes_counterexample:
  "decision (middleware_with []
      \<lparr>auth = JSession \<lparr>userId = 42\<rparr>,
       nextUrl = \<lparr>origin = ''https://example.com'', pathname = ''/login''\<rparr>,
       url = \<lparr>origin = ''https://example.com'', pathname = ''/login''\<rparr>\<rparr>)
     = RedirectTo ''/dashboard''
   \<and> decision (middleware_with []
      \<lparr>auth = JSession \<lparr>userId = 42\<rparr>,
       nextUrl = \<lparr>origin = ''https://example.com'', pathname = ''/login''\<rparr>,
       url = \<lparr>origin = ''https://example.com'', pathname = ''/login''\<rparr>\<rparr>)
     \<noteq> Allow"
  by (simp add: middleware_with_def URL_new_def)

subsection \<open>Paths outside the private prefixes\<close>

text \<open>
  Claim C3. (amended) For every path that starts with none of the private prefixes and every
  value of \<^verbatim>\<open>req.auth\<close>, the decision is \<open>Allow\<close>, except when the request is logged
  in and the path starts with \<open>/login\<close>; then it is redirected to \<open>/dashboard\<close>. The
  exception covers every path below the login path, not the login path alone.
\<close>

theorem public_path_allow:
  assumes "\<forall>r \<in> set routes. \<not> prefix r (pathname (nextUrl req))"
  shows "decision (middleware_with routes req) =
     (if truthy (auth req) \<and> prefix ''/login'' (pathname (nextUrl req))
      then RedirectTo ''/dashboard'' else Allow)"
  using assms by (simp add: decision_middleware_with)

theorem public_path_allow_witness:
  "(\<exists>r \<in> set privateRoutes. prefix r ''/about'') = False
   \<and> decision (middleware_with privateRoutes
        \<lparr>auth = JSession \<lparr>userId = 42\<rparr>,
         nextUrl = \<lparr>origin = ''https://example.com'', pathname = ''/about''\<rparr>,
         url = \<lparr>origin = ''https://example.com'', pathname = ''/about''\<rparr>\<rparr>) = Allow
   \<and> decision (middleware_with privateRoutes
        \<lparr>auth = JSession \<lparr>userId = 42\<rparr>,
         nextUrl = \<lparr>origin = ''https://example.com'', pathname = ''/login/callback''\<rparr>,
         url = \<lparr>origin = ''https://example.com'', pathname = ''/login/callback''\<rparr>\<rparr>)
       = RedirectTo ''/dashboard''"
proof -
  have h1: "\<forall>r \<in> set privateRoutes. \<not> prefix r ''/about''"
    by (simp add: privateRoutes_def)
  have h2: "\<forall>r \<in> set privateRoutes. \<not> prefix r ''/login/callback''"
    by (simp add: privateRoutes_def)
  show ?thesis
    using h1
      public_path_allow [of privateRoutes
        "\<lparr>auth = JSession \<lparr>userId = 42\<rparr>,
          nextUrl = \<lparr>origin = ''https://example.com'', pathname = ''/about''\<rparr>,
          url = \<lparr>origin = ''https://example.com'', pathname = ''/about''\<rparr>\<rparr>"]
      public_path_allow [of privateRoutes
        "\<lparr>auth = JSession \<lparr>userId = 42\<rparr>,
          nextUrl = \<lparr>origin = ''https://example.com'', pathname = ''/login/callback''\<rparr>,
          url = \<lparr>origin = ''https://example.com'', pathname = ''/login/callback''\<rparr>\<rparr>"]
      h2
    by simp
qed

text \<open>
  The claim as it was stated makes an exception of the login path only. The path
  \<open>/login/callback\<close> starts with no private prefix and is not the login path, yet a
  logged-in user 42 is redirected.
\<close>

theorem public_path_counterexample:
  "\<not> prefix ''/dashboard'' ''/login/callback''
   \<and> \<not> prefix ''/deneme'' ''/login/callback''
   \<and> ''/login/callback'' \<noteq> ''/login''
   \<and> decision (middleware
      \<lparr>auth = JSession \<lparr>userId = 42\<rparr>,
       nextUrl = \<lparr>origin = ''https://example.com'', pathname = ''/login/callback''\<rparr>,
       url = \<lparr>origin = ''https://example.com'', pathname = ''/login/callback''\<rparr>\<rparr>)
     = RedirectTo ''/dashboard''"
  by (simp add: middleware_def middleware_with_def privateRoutes_def URL_new_def)

subsection \<open>Private paths without a session\<close>

text \<open>
  Claim C4. For every path that starts with one of the private prefixes, a request that is not
  logged in is redirected to \<open>/login\<close>, for any list of prefixes and for the list of the
  code; in particular a request for \<open>/dashboard\<close> with no session is redirected to
  \<open>/login\<close>.
\<close>

theorem private_unauthenticated_redirect:
  "(\<not> truthy (auth req) \<and> (\<exists>r \<in> set routes. prefix r (pathname (nextUrl req)))
      \<longrightarrow> decision (middleware_with routes req) = RedirectTo ''/login'')
   \<and> (\<not> truthy (auth req) \<and>
        (prefix ''/dashboard'' (pathname (nextUrl req)) \<or> prefix ''/deneme'' (pathname (nextUrl req)))
      \<longrightarrow> decision (middleware req) = RedirectTo ''/login'')
   \<and> decision (middleware
        \<lparr>auth = JNull, nextUrl = \<lparr>origin = o1, pathname = ''/dashboard''\<rparr>, url = u\<rparr>)
       = RedirectTo ''/login''"
  unfolding middleware_def privateRoutes_def decision_middleware_with by simp

theorem private_unauthenticated_redirect_witness:
  "\<not> truthy JUndefined
   \<and> (\<exists>r \<in> set [''/dashboard'', ''/deneme'']. prefix r ''/deneme/settings'')
   \<and> decision (middleware_with [''/dashboard'', ''/deneme'']
        \<lparr>auth = JUndefined,
         nextUrl = \<lparr>origin = ''https://example.com'', pathname = ''/deneme/settings''\<rparr>,
         url = \<lparr>origin = ''https://example.com'', pathname = ''/deneme/settings''\<rparr>\<rparr>)
       = RedirectTo ''/login''
   \<and> decision (middleware
        \<lparr>auth = JUndefined,
         nextUrl = \<lparr>origin = ''https://example.com'', pathname = ''/deneme/settings''\<rparr>,
         url = \<lparr>origin = ''https://example.com'', pathname = ''/deneme/settings''\<rparr>\<rparr>)
       = RedirectTo ''/login''"
  using private_unauthenticated_redirect [of
      "\<lparr>auth = JUndefined,
        nextUrl = \<lparr>origin = ''https://example.com'', pathname = ''/deneme/settings''\<rparr>,
        url = \<lparr>origin = ''https://example.com'', pathname = ''/deneme/settings''\<rparr>\<rparr>"
      "[''/dashboard'', ''/deneme'']"]
  by simp

subsection \<open>The scenarios of the spec\<close>

text \<open>
  Claim C5. With the configuration written in the code (login path \<open>/login\<close>, private
  prefixes \<open>/dashboard\<close> and \<open>/deneme\<close>, home \<open>/dashboard\<close>): a logged-in user 42 on
  \<open>/dashboard\<close> is allowed; a logged-in user 42 on \<open>/login\<close> is redirected to
  \<open>/dashboard\<close>; a request for \<open>/login\<close> with no session is allowed; a request for
  \<open>/\<close> with no session is allowed.
\<close>

theorem scenarios_2_to_5:
  "decision (middleware \<lparr>auth = JSession \<lparr>userId = 42\<rparr>,
        nextUrl = \<lparr>origin = o1, pathname = ''/dashboard''\<rparr>, url = u\<rparr>) = Allow
   \<and> decision (middleware \<lparr>auth = JSession \<lparr>userId = 42\<rparr>,
        nextUrl = \<lparr>origin = o1, pathname = ''/login''\<rparr>, url = u\<rparr>) = RedirectTo ''/dashboard''
   \<and> decision (middleware \<lparr>auth = JNull,
        nextUrl = \<lparr>origin = o1, pathname = ''/login''\<rparr>, url = u\<rparr>) = Allow
   \<and> decision (middleware \<lparr>auth = JNull,
        nextUrl = \<lparr>origin = o1, pathname = ''/''\<rparr>, url = u\<rparr>) = Allow"
  by (simp add: middleware_def middleware_with_def privateRoutes_def URL_new_def)

subsection \<open>What the decision depends on\<close>

text \<open>
  Claim C6. The callback reads \<^verbatim>\<open>req.auth\<close>, \<^verbatim>\<open>req.nextUrl.pathname\<close>,
  \<^verbatim>\<open>req.url\<close> and the list of private prefixes, and assigns to nothing, so it is a
  function of these. Its decision depends on less: two requests that agree on whether
  they are logged in and on the path get the same decision under any two lists with the
  same set of prefixes, whoever the user is and whatever the rest of the request holds;
  the classification of the path as private depends on the set of prefixes and the path
  alone; and when the two requests also come from the same origin, the responses are
  identical. Equal inputs are the special case.
\<close>

theorem gate_deterministic:
  assumes "truthy (auth r1) = truthy (auth r2)"
    and "pathname (nextUrl r1) = pathname (nextUrl r2)"
    and "set routes1 = set routes2"
  shows "decision (middleware_with routes1 r1) = decision (middleware_with routes2 r2)
    \<and> some (\<lambda>route. startsWith (pathname (nextUrl r1)) route) routes1
        = some (\<lambda>route. startsWith (pathname (nextUrl r2)) route) routes2
    \<and> (origin (url r1) = origin (url r2)
        \<longrightarrow> middleware_with routes1 r1 = middleware_with routes2 r2)"
proof -
  have cls: "some (\<lambda>route. startsWith (pathname (nextUrl r1)) route) routes1
        = some (\<lambda>route. startsWith (pathname (nextUrl r2)) route) routes2"
    using assms(2,3) by (simp add: some_set)
  have dec: "decision (middleware_with routes1 r1) = decision (middleware_with routes2 r2)"
    using assms by (simp add: decision_middleware_with)
  have resp: "middleware_with routes1 r1 = middleware_with routes2 r2"
    if "origin (url r1) = origin (url r2)"
    using that assms by (simp add: middleware_with_def Let_def URL_new_def some_set)
  from cls dec resp show ?thesis by blast
qed

theorem gate_deterministic_witness:
  "truthy (JSession \<lparr>userId = 42\<rparr>) = truthy (JSession \<lparr>userId = 7\<rparr>)
   \<and> set [''/dashboard'', ''/deneme''] = set [''/deneme'', ''/dashboard'', ''/deneme'']
   \<and> decision (middleware_with [''/dashboard'', ''/deneme'']
        \<lparr>auth = JSession \<lparr>userId = 42\<rparr>,
         nextUrl = \<lparr>origin = ''https://a.example'', pathname = ''/login''\<rparr>,
         url = \<lparr>origin = ''https://a.example'', pathname = ''/login''\<rparr>\<rparr>)
     = decision (middleware_with [''/deneme'', ''/dashboard'', ''/deneme'']
        \<lparr>auth = JSession \<lparr>userId = 7\<rparr>,
         nextUrl = \<lparr>origin = ''https://b.example'', pathname = ''/login''\<rparr>,
         url = \<lparr>origin = ''https://b.example'', pathname = ''/login''\<rparr>\<rparr>)"
proof -
  have s: "set [''/dashboard'', ''/deneme''] = set [''/deneme'', ''/dashboard'', ''/deneme'']"
    by auto
  have t: "truthy (JSession \<lparr>userId = 42\<rparr>) = truthy (JSession \<lparr>userId = 7\<rparr>)"
    by simp
  show ?thesis
    using s t gate_deterministic [of
      "\<lparr>auth = JSession \<lparr>userId = 42\<rparr>,
         nextUrl = \<lparr>origin = ''https://a.example'', pathname = ''/login''\<rparr>,
         url = \<lparr>origin = ''https://a.example'', pathname = ''/login''\<rparr>\<rparr>"
      "\<lparr>auth = JSession \<lparr>userId = 7\<rparr>,
         nextUrl = \<lparr>origin = ''https://b.example'', pathname = ''/login''\<rparr>,
         url = \<lparr>origin = ''https://b.example'', pathname = ''/login''\<rparr>\<rparr>"
      "[''/dashboard'', ''/deneme'']" "[''/deneme'', ''/dashboard'', ''/deneme'']"]
    by simp
qed

subsection \<open>Totality and the treatment of missing sessions\<close>

text \<open>
  Claim C7. The callback has no failing operation: for every request the decision is
  \<open>Allow\<close>, a redirect to \<open>/login\<close> or a redirect to \<open>/dashboard\<close>. Every falsy value
  of \<^verbatim>\<open>req.auth\<close> (\<^verbatim>\<open>undefined\<close>, \<^verbatim>\<open>null\<close>, \<^verbatim>\<open>false\<close>,
  \<^verbatim>\<open>0\<close>, \<^verbatim>\<open>NaN\<close>, the empty string) gives the very response that
  \<^verbatim>\<open>null\<close> gives, which is the ordinary policy for a request that is not logged in:
  a redirect to \<open>/login\<close> on a private path and \<open>Allow\<close> elsewhere.
\<close>

theorem gate_total_falsy_is_unauthenticated:
  "(decision (middleware_with routes req) = Allow
      \<or> decision (middleware_with routes req) = RedirectTo ''/login''
      \<or> decision (middleware_with routes req) = RedirectTo ''/dashboard'')
   \<and> (\<not> truthy a \<longrightarrow>
        middleware_with routes (req\<lparr>auth := a\<rparr>) = middleware_with routes (req\<lparr>auth := JNull\<rparr>)
        \<and> decision (middleware_with routes (req\<lparr>auth := a\<rparr>)) =
            (if \<exists>r \<in> set routes. prefix r (pathname (nextUrl req))
             then RedirectTo ''/login'' else Allow))
   \<and> \<not> truthy JUndefined \<and> \<not> truthy JNull \<and> \<not> truthy (JBool False)
   \<and> \<not> truthy (JNumber 0) \<and> \<not> truthy JNaN \<and> \<not> truthy (JString [])"
  by (simp add: decision_middleware_with) (simp add: middleware_with_def)

theorem gate_total_falsy_is_unauthenticated_witness:
  "\<not> truthy (JString [])
   \<and> middleware_with privateRoutes
        \<lparr>auth = JString [],
         nextUrl = \<lparr>origin = ''https://example.com'', pathname = ''/dashboard/x''\<rparr>,
         url = \<lparr>origin = ''https://example.com'', pathname = ''/dashboard/x''\<rparr>\<rparr>
     = middleware_with privateRoutes
        \<lparr>auth = JNull,
         nextUrl = \<lparr>origin = ''https://example.com'', pathname = ''/dashboard/x''\<rparr>,
         url = \<lparr>origin = ''https://example.com'', pathname = ''/dashboard/x''\<rparr>\<rparr>
   \<and> decision (middleware_with privateRoutes
        \<lparr>auth = JString [],
         nextUrl = \<lparr>origin = ''https://example.com'', pathname = ''/dashboard/x''\<rparr>,
         url = \<lparr>origin = ''https://example.com'', pathname = ''/dashboard/x''\<rparr>\<rparr>)
     = RedirectTo ''/login''"
  using gate_total_falsy_is_unauthenticated [of privateRoutes
      "\<lparr>auth = JString [],
        nextUrl = \<lparr>origin = ''https://example.com'', pathname = ''/dashboard/x''\<rparr>,
        url = \<lparr>origin = ''https://example.com'', pathname = ''/dashboard/x''\<rparr>\<rparr>"
      "JString []"]
  by (simp add: privateRoutes_def middleware_with_def URL_new_def)

subsection \<open>The direction of redirects\<close>

text \<open>
  Claim C10. A logged-in request is never redirected to \<open>/login\<close>, and a request that is
  not logged in is never redirected to \<open>/dashboard\<close>, whatever the path and the list
  of private prefixes.
\<close>

theorem no_wrong_direction_redirect:
  "(truthy (auth req) \<longrightarrow> decision (middleware_with routes req) \<noteq> RedirectTo ''/login'')
   \<and> (\<not> truthy (auth req) \<longrightarrow> decision (middleware_with routes req) \<noteq> RedirectTo ''/dashboard'')"
  by (simp add: decision_middleware_with)

theorem no_wrong_direction_redirect_witness:
  "truthy (JSession \<lparr>userId = 42\<rparr>)
   \<and> decision (middleware_with privateRoutes
        \<lparr>auth = JSession \<lparr>userId = 42\<rparr>,
         nextUrl = \<lparr>origin = ''https://example.com'', pathname = ''/login''\<rparr>,
         url = \<lparr>origin = ''https://example.com'', pathname = ''/login''\<rparr>\<rparr>)
       \<noteq> RedirectTo ''/login''
   \<and> \<not> truthy JNull
   \<and> decision (middleware_with privateRoutes
        \<lparr>auth = JNull,
         nextUrl = \<lparr>origin = ''https://example.com'', pathname = ''/dashboard''\<rparr>,
         url = \<lparr>origin = ''https://example.com'', pathname = ''/dashboard''\<rparr>\<rparr>)
       \<noteq> RedirectTo ''/dashboard''"
  using
    no_wrong_direction_redirect [of
      "\<lparr>auth = JSession \<lparr>userId = 42\<rparr>,
        nextUrl = \<lparr>origin = ''https://example.com'', pathname = ''/login''\<rparr>,
        url = \<lparr>origin = ''https://example.com'', pathname = ''/login''\<rparr>\<rparr>" privateRoutes]
    no_wrong_direction_redirect [of
      "\<lparr>auth = JNull,
        nextUrl = \<lparr>origin = ''https://example.com'', pathname = ''/dashboard''\<rparr>,
        url = \<lparr>origin = ''https://example.com'', pathname = ''/dashboard''\<rparr>\<rparr>" privateRoutes]
  by simp

section \<open>Properties of the database module\<close>

subsection \<open>One evaluation, case by case\<close>

lemma db_module_invalid:
  "e ''MONGODB_URI'' = None \<or> e ''MONGODB_URI'' = Some [] \<Longrightarrow>
     db_module check e p = (Inl (Error missing_uri_message), p)"
  by (auto simp: db_module_def process_env_def)

lemma db_module_cached:
  "e ''MONGODB_URI'' = Some u \<Longrightarrow> u \<noteq> [] \<Longrightarrow> e ''NODE_ENV'' = Some ''development'' \<Longrightarrow>
     global_mongoClient p = Some c \<Longrightarrow> db_module check e p = (Inr c, p)"
  by (simp add: db_module_def process_env_def)

lemma db_module_first:
  "e ''MONGODB_URI'' = Some u \<Longrightarrow> u \<noteq> [] \<Longrightarrow> e ''NODE_ENV'' = Some ''development'' \<Longrightarrow>
     global_mongoClient p = None \<Longrightarrow> check u options = None \<Longrightarrow>
     db_module check e p =
       (Inr \<lparr>client_id = clients_created p, client_uri = u, client_options = options\<rparr>,
        p\<lparr>global_mongoClient :=
             Some \<lparr>client_id = clients_created p, client_uri = u, client_options = options\<rparr>,
          clients_created := Suc (clients_created p)\<rparr>)"
  by (simp add: db_module_def process_env_def MongoClient_new_def)

lemma db_module_first_rejected:
  "e ''MONGODB_URI'' = Some u \<Longrightarrow> u \<noteq> [] \<Longrightarrow> e ''NODE_ENV'' = Some ''development'' \<Longrightarrow>
     global_mongoClient p = None \<Longrightarrow> check u options = Some m \<Longrightarrow>
     db_module check e p = (Inl (DriverError m), p)"
  by (simp add: db_module_def process_env_def MongoClient_new_def)

lemma db_module_other:
  "e ''MONGODB_URI'' = Some u \<Longrightarrow> u \<noteq> [] \<Longrightarrow> e ''NODE_ENV'' \<noteq> Some ''development'' \<Longrightarrow>
     check u options = None \<Longrightarrow>
     db_module check e p =
       (Inr \<lparr>client_id = clients_created p, client_uri = u, client_options = options\<rparr>,
        p\<lparr>clients_created := Suc (clients_created p)\<rparr>)"
  by (simp add: db_module_def process_env_def MongoClient_new_def)

lemma db_module_other_rejected:
  "e ''MONGODB_URI'' = Some u \<Longrightarrow> u \<noteq> [] \<Longrightarrow> e ''NODE_ENV'' \<noteq> Some ''development'' \<Longrightarrow>
     check u options = Some m \<Longrightarrow>
     db_module check e p = (Inl (DriverError m), p)"
  by (simp add: db_module_def process_env_def MongoClient_new_def)

subsection \<open>Repeated evaluation with the global property set\<close>


subsection \<open>The guard on the connection string\<close>

text \<open>
  Claim C8. (amended) When \<^verbatim>\<open>MONGODB_URI\<close> is not set, or is set to the empty string,
  evaluating the module throws the error about the invalid or missing variable and leaves
  the process as it was: no client has been constructed. When it is set to a string that
  is not empty, that error is not thrown: the evaluation exports a client, or, when the
  constructor of the driver rejects the string, ends with the driver's own error and
  leaves the process as it was. This holds whatever the driver accepts.
\<close>

theorem missing_uri_is_fatal:
  "(e ''MONGODB_URI'' = None \<or> e ''MONGODB_URI'' = Some []
      \<longrightarrow> db_module check e p = (Inl (Error missing_uri_message), p))
   \<and> (\<forall>u. e ''MONGODB_URI'' = Some u \<and> u \<noteq> []
      \<longrightarrow> fst (db_module check e p) \<noteq> Inl (Error missing_uri_message)
        \<and> ((\<exists>c p'. db_module check e p = (Inr c, p'))
           \<or> (\<exists>m. check u options = Some m \<and> db_module check e p = (Inl (DriverError m), p))))"
proof (intro conjI impI allI)
  assume "e ''MONGODB_URI'' = None \<or> e ''MONGODB_URI'' = Some []"
  then show "db_module check e p = (Inl (Error missing_uri_message), p)"
    by (rule db_module_invalid)
next
  fix u
  assume u: "e ''MONGODB_URI'' = Some u \<and> u \<noteq> []"
  have cases: "(\<exists>c p'. db_module check e p = (Inr c, p'))
      \<or> (\<exists>m. check u options = Some m \<and> db_module check e p = (Inl (DriverError m), p))"
  proof (cases "e ''NODE_ENV'' = Some ''development''")
    case dev: True
    show ?thesis
    proof (cases "global_mongoClient p")
      case None
      with u dev show ?thesis
        by (cases "check u options") (simp_all add: db_module_first db_module_first_rejected)
    next
      case (Some c)
      with u dev show ?thesis by (simp add: db_module_cached)
    qed
  next
    case False
    with u show ?thesis
      by (cases "check u options") (simp_all add: db_module_other db_module_other_rejected)
  qed
  then show "fst (db_module check e p) \<noteq> Inl (Error missing_uri_message)"
    by auto
  from cases show "(\<exists>c p'. db_module check e p = (Inr c, p'))
      \<or> (\<exists>m. check u options = Some m \<and> db_module check e p = (Inl (DriverError m), p))" .
qed

theorem missing_uri_is_fatal_witness:
  "db_module scheme_check Map.empty \<lparr>global_mongoClient = None, clients_created = 0\<rparr>
     = (Inl (Error missing_uri_message), \<lparr>global_mongoClient = None, clients_created = 0\<rparr>)
   \<and> db_module scheme_check [''MONGODB_URI'' \<mapsto> ''mongodb://localhost:27017'']
        \<lparr>global_mongoClient = None, clients_created = 0\<rparr>
     = (Inr \<lparr>client_id = 0, client_uri = ''mongodb://localhost:27017'', client_options = options\<rparr>,
        \<lparr>global_mongoClient = None, clients_created = 1\<rparr>)
   \<and> db_module scheme_check [''MONGODB_URI'' \<mapsto> ''not-a-uri'']
        \<lparr>global_mongoClient = None, clients_created = 0\<rparr>
     = (Inl (DriverError ''Invalid scheme''), \<lparr>global_mongoClient = None, clients_created = 0\<rparr>)
   \<and> fst (db_module scheme_check [''MONGODB_URI'' \<mapsto> ''not-a-uri'']
        \<lparr>global_mongoClient = None, clients_created = 0\<rparr>) \<noteq> Inl (Error missing_uri_message)"
  using
    missing_uri_is_fatal [of Map.empty scheme_check
      "\<lparr>global_mongoClient = None, clients_created = 0\<rparr>"]
    missing_uri_is_fatal [of "[''MONGODB_URI'' \<mapsto> ''mongodb://localhost:27017'']" scheme_check
      "\<lparr>global_mongoClient = None, clients_created = 0\<rparr>"]
    missing_uri_is_fatal [of "[''MONGODB_URI'' \<mapsto> ''not-a-uri'']" scheme_check
      "\<lparr>global_mongoClient = None, clients_created = 0\<rparr>"]
  by (simp add: scheme_check_def db_module_def process_env_def MongoClient_new_def)

text \<open>
  The claim as it was stated (a variable that is present raises no error) fails when
  the variable is present and empty: the guard tests the value for falsiness.
\<close>

theorem empty_uri_counterexample:
  "[''MONGODB_URI'' \<mapsto> []] ''MONGODB_URI'' = Some []
   \<and> db_module scheme_check [''MONGODB_URI'' \<mapsto> []]
        \<lparr>global_mongoClient = None, clients_created = 0\<rparr>
     = (Inl (Error missing_uri_message), \<lparr>global_mongoClient = None, clients_created = 0\<rparr>)"
  by (simp add: db_module_def process_env_def)

subsection \<open>How often a client is constructed\<close>




end
